theory Spec2Isabelle
  imports Main
begin

section \<open>Python values and the library calls the engine makes\<close>

text \<open>
  The values that travel through \<open>task.parameters\<close> and \<open>sequence.results\<close>.
  The payload of a float is left abstract (\<open>'f\<close>). \<open>VObj a b\<close> is any other
  object (a driver result, a list, a dictionary, ...): \<open>a\<close> is its identity and
  \<open>b\<close> its truth value (an empty list, tuple or dictionary is falsy). Such an object
  is not a number and is never equal to a string.
\<close>

datatype 'f pyval = VNone | VBool bool | VInt int | VFloat 'f | VStr string | VObj nat bool

text \<open>
  What the engine needs from Python's float and from \<open>time.sleep\<close> on a float,
  taken as parameters: \<open>float(s)\<close> (None when it raises ValueError), \<open>==\<close>,
  truthiness, \<open>int(x)\<close> (None when it raises, as on nan and inf) and whether
  \<open>time.sleep(x)\<close> returns (it raises on a negative or nan argument).
\<close>

record 'f float_ops =
  float_of_str :: "string \<Rightarrow> 'f option"
  float_eq :: "'f \<Rightarrow> 'f \<Rightarrow> bool"
  float_truthy :: "'f \<Rightarrow> bool"
  float_to_int :: "'f \<Rightarrow> int option"
  float_sleepable :: "'f \<Rightarrow> bool"

text \<open>Python truthiness, as used by \<open>if x\<close>, \<open>x and y\<close> and \<open>not x\<close>.\<close>

fun truthy :: "'f float_ops \<Rightarrow> 'f pyval \<Rightarrow> bool" where
  "truthy lib VNone = False"
| "truthy lib (VBool b) = b"
| "truthy lib (VInt i) = (i \<noteq> 0)"
| "truthy lib (VFloat x) = float_truthy lib x"
| "truthy lib (VStr s) = (s \<noteq> [])"
| "truthy lib (VObj a b) = b"

text \<open>The exceptions a task dispatch can raise; \<open>str(e)\<close> is kept structured.\<close>

datatype 'f py_error =
    InvalidInstrument
  | IntError "'f pyval"
  | SleepError "'f pyval"
  | CallError string

text \<open>
  \<open>InvalidInstrument\<close> is \<open>ValueError("Invalid instrument or function")\<close>;
  \<open>IntError v\<close> is what \<open>int(v)\<close> raised, \<open>SleepError v\<close> what
  \<open>time.sleep(v)\<close> raised, \<open>CallError m\<close> an exception with message \<open>m\<close>
  coming out of the instrument's \<open>run_function\<close>.
\<close>

subsection \<open>\<open>str.strip\<close>, \<open>str.split("==")\<close> and \<open>int(str)\<close>\<close>

definition is_space :: "char \<Rightarrow> bool" where
  "is_space c = (c \<in> set [CHR 0x09, CHR 0x0A, CHR 0x0B, CHR 0x0C, CHR 0x0D,
                           CHR 0x1C, CHR 0x1D, CHR 0x1E, CHR 0x1F, CHR 0x20,
                           CHR 0x85, CHR 0xA0])"

definition strip :: "string \<Rightarrow> string" where
  "strip s = rev (dropWhile is_space (rev (dropWhile is_space s)))"

text \<open>\<open>"==" in s\<close>\<close>

fun contains_eqeq :: "string \<Rightarrow> bool" where
  "contains_eqeq (c # d # cs) = ((c = CHR ''='' \<and> d = CHR ''='') \<or> contains_eqeq (d # cs))"
| "contains_eqeq cs = False"

text \<open>
  \<open>s.split("==")\<close>: the pieces between the non-overlapping occurrences of the
  separator, scanned from the left; \<open>acc\<close> is the current piece, reversed.
\<close>

fun split_eqeq :: "string \<Rightarrow> string \<Rightarrow> string list" where
  "split_eqeq acc [] = [rev acc]"
| "split_eqeq acc [c] = [rev (c # acc)]"
| "split_eqeq acc (c # d # cs) =
     (if c = CHR ''='' \<and> d = CHR ''='' then rev acc # split_eqeq [] cs
      else split_eqeq (c # acc) (d # cs))"

definition digit_of :: "char \<Rightarrow> nat option" where
  "digit_of c = map_of [(CHR ''0'', 0), (CHR ''1'', 1), (CHR ''2'', 2), (CHR ''3'', 3),
                        (CHR ''4'', 4), (CHR ''5'', 5), (CHR ''6'', 6), (CHR ''7'', 7),
                        (CHR ''8'', 8), (CHR ''9'', 9)] c"

text \<open>
  The digits after the first one: an underscore is allowed between two digits only.
\<close>

fun int_digits :: "nat \<Rightarrow> string \<Rightarrow> nat option" where
  "int_digits acc [] = Some acc"
| "int_digits acc [c] =
     (case digit_of c of None \<Rightarrow> None | Some v \<Rightarrow> Some (acc * 10 + v))"
| "int_digits acc (c # d # ds) =
     (if c = CHR ''_''
      then (case digit_of d of None \<Rightarrow> None | Some v \<Rightarrow> int_digits (acc * 10 + v) ds)
      else (case digit_of c of None \<Rightarrow> None
            | Some v \<Rightarrow> int_digits (acc * 10 + v) (d # ds)))"

definition unsigned_of_str :: "string \<Rightarrow> nat option" where
  "unsigned_of_str s =
     (case s of [] \<Rightarrow> None
      | c # cs \<Rightarrow> (case digit_of c of None \<Rightarrow> None | Some v \<Rightarrow> int_digits v cs))"

text \<open>
  The whitespace \<open>int\<close> skips around the numeral: that of \<open>str.strip\<close> without
  the four separators \<open>0x1C\<close> to \<open>0x1F\<close>.
\<close>

definition is_int_space :: "char \<Rightarrow> bool" where
  "is_int_space c = (c \<in> set [CHR 0x09, CHR 0x0A, CHR 0x0B, CHR 0x0C, CHR 0x0D, CHR 0x20,
                               CHR 0x85, CHR 0xA0])"

text \<open>
  \<open>int(s)\<close> on a string, base 10: surrounding whitespace, an optional sign, decimal
  digits. None stands for ValueError. (The interpreter's limit on the number of digits
  is not modelled.)
\<close>

definition int_of_str :: "string \<Rightarrow> int option" where
  "int_of_str s =
     (case rev (dropWhile is_int_space (rev (dropWhile is_int_space s))) of [] \<Rightarrow> None
      | c # cs \<Rightarrow>
          if c = CHR ''-'' then map_option (\<lambda>n. - int n) (unsigned_of_str cs)
          else if c = CHR ''+'' then map_option int (unsigned_of_str cs)
          else map_option int (unsigned_of_str (c # cs)))"

text \<open>\<open>int(v)\<close> on a value; \<open>Inl\<close> is the exception.\<close>

fun py_int :: "'f float_ops \<Rightarrow> 'f pyval \<Rightarrow> 'f py_error + int" where
  "py_int lib (VInt i) = Inr i"
| "py_int lib (VBool b) = Inr (if b then 1 else 0)"
| "py_int lib (VFloat x) =
     (case float_to_int lib x of None \<Rightarrow> Inl (IntError (VFloat x)) | Some i \<Rightarrow> Inr i)"
| "py_int lib (VStr s) =
     (case int_of_str s of None \<Rightarrow> Inl (IntError (VStr s)) | Some i \<Rightarrow> Inr i)"
| "py_int lib v = Inl (IntError v)"

text \<open>
  Whether \<open>time.sleep(v)\<close> returns: it raises ValueError on a negative number and
  TypeError on anything that is not a number. (The overflow on astronomically large
  integers is not modelled, nor is the time that passes.)
\<close>

fun sleep_returns :: "'f float_ops \<Rightarrow> 'f pyval \<Rightarrow> bool" where
  "sleep_returns lib (VInt i) = (0 \<le> i)"
| "sleep_returns lib (VBool b) = True"
| "sleep_returns lib (VFloat x) = float_sleepable lib x"
| "sleep_returns lib v = False"

section \<open>Tasks and sequences\<close>

datatype task_status = Pending | TaskRunning | TaskComplete | TaskErrored

text \<open>
  \<open>task.result\<close>: the value an instrument call returned (\<open>Value VNone\<close> is Python's
  None), or one of the informational strings the executor formats:
  \<open>Delayed v\<close> is \<open>f"Delayed {v} seconds"\<close>, \<open>LoopStarted r\<close> is
  \<open>f"Loop started ({r} iterations)"\<close>, \<open>LoopIteration k m\<close> is
  \<open>f"Loop iteration {k}/{m}"\<close>, \<open>LoopComplete\<close> is \<open>"Loop complete"\<close>,
  \<open>LoopEndWarning\<close> is \<open>"Warning: Loop end without matching start"\<close>,
  \<open>ConditionEvaluated b\<close> is \<open>f"Condition evaluated to {b}"\<close>,
  \<open>UnknownTaskType s\<close> is \<open>f"Unknown task type: {s}"\<close> and \<open>ErrorText e\<close> is
  \<open>f"Error: {str(e)}"\<close>.
\<close>

datatype 'f task_result =
    Value "'f pyval"
  | Delayed "'f pyval"
  | LoopStarted int
  | LoopIteration int int
  | LoopComplete
  | LoopEndWarning
  | ConditionEvaluated bool
  | UnknownTaskType string
  | ErrorText "'f py_error"

text \<open>
  \<open>ExperimentTask\<close>. The target is a reference to an instrument object (an address
  into the instrument store below), or None.
\<close>

record 'f task =
  task_name :: string
  task_type :: string
  task_target :: "nat option"
  task_function :: "string option"
  task_parameters :: "string \<rightharpoonup> 'f pyval"
  task_delay :: int
  task_repeat :: int
  task_condition :: "string option"
  task_result :: "'f task_result"
  task_status :: task_status

text \<open>\<open>ExperimentTask.__init__\<close>\<close>

definition ExperimentTask ::
  "string \<Rightarrow> string \<Rightarrow> nat option \<Rightarrow> string option \<Rightarrow> (string \<rightharpoonup> 'f pyval) \<Rightarrow>
   int \<Rightarrow> int \<Rightarrow> string option \<Rightarrow> 'f task" where
  "ExperimentTask nm ty tg fn ps dl rp cd =
     \<lparr>task_name = nm, task_type = ty, task_target = tg, task_function = fn,
      task_parameters = ps, task_delay = dl, task_repeat = rp, task_condition = cd,
      task_result = Value VNone, task_status = Pending\<rparr>"

datatype seq_status = Stopped | Running | Paused | Complete

text \<open>
  \<open>ExperimentSequence\<close>. \<open>loop_stack\<close> is a Python list used as a stack: the top is
  its last element. \<open>recurrence_type\<close> is an attribute that exists only once it has
  been set (\<open>hasattr\<close>): None when absent.
\<close>

record ('f, 't) sequence =
  seq_name :: string
  tasks :: "'f task list"
  scheduled_time :: "'t option"
  current_task :: nat
  seq_status :: seq_status
  loop_stack :: "(nat \<times> int \<times> int) list"
  results :: "string \<rightharpoonup> 'f pyval"
  recurrence_type :: "string option"

text \<open>\<open>ExperimentSequence.__init__\<close>\<close>

definition ExperimentSequence :: "string \<Rightarrow> ('f, 't) sequence" where
  "ExperimentSequence nm =
     \<lparr>seq_name = nm, tasks = [], scheduled_time = None, current_task = 0,
      seq_status = Stopped, loop_stack = [], results = Map.empty, recurrence_type = None\<rparr>"

definition add_task :: "'f task \<Rightarrow> ('f, 't) sequence \<Rightarrow> ('f, 't) sequence" where
  "add_task t s = s\<lparr>tasks := tasks s @ [t]\<rparr>"

text \<open>The index is a Python int: it may be negative.\<close>

definition remove_task :: "int \<Rightarrow> ('f, 't) sequence \<Rightarrow> ('f, 't) sequence" where
  "remove_task index s =
     (if 0 \<le> index \<and> index < int (length (tasks s))
      then s\<lparr>tasks := take (nat index) (tasks s) @ drop (nat index + 1) (tasks s)\<rparr>
      else s)"

definition move_task_up :: "int \<Rightarrow> ('f, 't) sequence \<Rightarrow> ('f, 't) sequence" where
  "move_task_up index s =
     (if 0 < index \<and> index < int (length (tasks s))
      then s\<lparr>tasks := (tasks s)[nat index := tasks s ! (nat index - 1),
                                 nat index - 1 := tasks s ! nat index]\<rparr>
      else s)"

definition move_task_down :: "int \<Rightarrow> ('f, 't) sequence \<Rightarrow> ('f, 't) sequence" where
  "move_task_down index s =
     (if 0 \<le> index \<and> index < int (length (tasks s)) - 1
      then s\<lparr>tasks := (tasks s)[nat index := tasks s ! (nat index + 1),
                                 nat index + 1 := tasks s ! nat index]\<rparr>
      else s)"

definition reset_task :: "'f task \<Rightarrow> 'f task" where
  "reset_task t = t\<lparr>task_status := Pending, task_result := Value VNone\<rparr>"

definition reset :: "('f, 't) sequence \<Rightarrow> ('f, 't) sequence" where
  "reset s = s\<lparr>current_task := 0, seq_status := Stopped, loop_stack := [],
               results := Map.empty, tasks := map reset_task (tasks s)\<rparr>"

section \<open>The executor\<close>

text \<open>
  An instrument object, as far as the engine touches it: \<open>instrument_data["name"]\<close>
  and the mutable \<open>parameters\<close> dictionary.
\<close>

record 'f instrument =
  inst_name :: string
  inst_parameters :: "string \<rightharpoonup> 'f pyval"

datatype 'f event =
    TaskStarted nat
  | TaskCompleted nat "'f task_result"
  | TaskError nat "'f py_error"
  | SequenceCompleted
  | SequencePaused
  | SequenceStopped

text \<open>
  \<open>SequenceExecutor\<close>: the sequence it owns and its two flags. Beside them the model
  carries what the run reads and writes outside the executor object: the instrument
  objects the tasks refer to (a store from addresses to objects), the state of the outside
  world the instrument calls act on, and the signals emitted so far, oldest first.
  The flags are written by other threads through \<open>pause\<close>, \<open>resume\<close> and
  \<open>stop\<close>; a run is modelled without such interference, the flags keeping the
  values they have when it starts.
\<close>

record ('f, 't, 'w) executor =
  sequence :: "('f, 't) sequence"
  paused :: bool
  stopped :: bool
  instruments :: "nat \<Rightarrow> 'f instrument"
  world :: 'w
  emitted :: "'f event list"

text \<open>\<open>SequenceExecutor.__init__\<close>\<close>

definition SequenceExecutor ::
  "('f, 't) sequence \<Rightarrow> (nat \<Rightarrow> 'f instrument) \<Rightarrow> 'w \<Rightarrow> ('f, 't, 'w) executor" where
  "SequenceExecutor s store w =
     \<lparr>sequence = s, paused = False, stopped = False, instruments = store, world = w,
      emitted = []\<rparr>"

definition pause :: "('f, 't, 'w) executor \<Rightarrow> ('f, 't, 'w) executor" where
  "pause ex = ex\<lparr>paused := True\<rparr>"

definition resume :: "('f, 't, 'w) executor \<Rightarrow> ('f, 't, 'w) executor" where
  "resume ex = ex\<lparr>paused := False\<rparr>"

definition stop :: "('f, 't, 'w) executor \<Rightarrow> ('f, 't, 'w) executor" where
  "stop ex = ex\<lparr>stopped := True\<rparr>"

text \<open>
  \<open>target.run_function()\<close> is the external collaborator: given the state of the world
  and the instrument object (with the parameters installed for the call), it returns a
  value or raises (\<open>Inl\<close>, with the message), and leaves a new state of the world. It
  does not assign the instrument's \<open>parameters\<close>.
\<close>

type_synonym ('f, 'w) run_function =
  "'w \<Rightarrow> 'f instrument \<Rightarrow> (string + 'f pyval) \<times> 'w"

definition emit :: "'f event \<Rightarrow> ('f, 't, 'w) executor \<Rightarrow> ('f, 't, 'w) executor" where
  "emit e ex = ex\<lparr>emitted := emitted ex @ [e]\<rparr>"

definition upd_seq ::
  "(('f, 't) sequence \<Rightarrow> ('f, 't) sequence) \<Rightarrow> ('f, 't, 'w) executor \<Rightarrow> ('f, 't, 'w) executor" where
  "upd_seq f ex = ex\<lparr>sequence := f (sequence ex)\<rparr>"

text \<open>An assignment to a field of \<open>sequence.tasks[i]\<close>.\<close>

definition upd_task ::
  "nat \<Rightarrow> ('f task \<Rightarrow> 'f task) \<Rightarrow> ('f, 't, 'w) executor \<Rightarrow> ('f, 't, 'w) executor" where
  "upd_task i f ex = upd_seq (\<lambda>s. s\<lparr>tasks := (tasks s)[i := f (tasks s ! i)]\<rparr>) ex"

definition set_result ::
  "nat \<Rightarrow> 'f task_result \<Rightarrow> ('f, 't, 'w) executor \<Rightarrow> ('f, 't, 'w) executor" where
  "set_result i r ex = upd_task i (\<lambda>t. t\<lparr>task_result := r\<rparr>) ex"

text \<open>
  The evaluation of a condition (the block that computes \<open>result\<close>). Every
  \<open>None \<Rightarrow> False\<close> on a conversion is the \<open>except: result = False\<close> of the inner
  \<open>try\<close>; a bool is an instance of int.
\<close>

definition evaluate_condition ::
  "'f float_ops \<Rightarrow> (string \<rightharpoonup> 'f pyval) \<Rightarrow> string option \<Rightarrow> bool" where
  "evaluate_condition lib res cond =
     (case cond of
        None \<Rightarrow> False
      | Some c \<Rightarrow>
          if c \<noteq> [] \<and> contains_eqeq c then
            (case split_eqeq [] c of
               [l, r] \<Rightarrow>
                 (let left = strip l; right = strip r in
                  case res left of
                    None \<Rightarrow> False
                  | Some left_value \<Rightarrow>
                      (case left_value of
                         VInt i \<Rightarrow>
                           (case int_of_str right of None \<Rightarrow> False | Some n \<Rightarrow> i = n)
                       | VBool b \<Rightarrow>
                           (case int_of_str right of None \<Rightarrow> False
                            | Some n \<Rightarrow> (if b then 1 else 0) = n)
                       | VFloat x \<Rightarrow>
                           (case float_of_str lib right of None \<Rightarrow> False
                            | Some y \<Rightarrow> float_eq lib x y)
                       | VStr s \<Rightarrow> s = right
                       | VNone \<Rightarrow> False
                       | VObj a b \<Rightarrow> False))
             | parts \<Rightarrow> False)
          else False)"

text \<open>
  How the \<open>try\<close> block of one loop iteration ends: it falls through to the common
  completion code, it leaves through \<open>continue\<close> (a jump: the cursor has been set), or
  it raises.
\<close>

datatype 'f dispatched = Completed | Jumped | Raised "'f py_error"

text \<open>
  The body of the \<open>try\<close> block for the task \<open>t\<close> at \<open>task_index\<close>. The state
  returned with \<open>Raised\<close> holds the assignments made before the exception.
\<close>

definition dispatch ::
  "'f float_ops \<Rightarrow> ('f, 'w) run_function \<Rightarrow> nat \<Rightarrow> 'f task \<Rightarrow> ('f, 't, 'w) executor \<Rightarrow>
   'f dispatched \<times> ('f, 't, 'w) executor" where
  "dispatch lib rf task_index t ex =
     (if task_type t = ''instrument'' then
        (case (task_target t, task_function t) of
           (Some r, Some fn) \<Rightarrow>
             if fn \<noteq> [] then
               (let original_params = inst_parameters (instruments ex r);
                    ex1 = ex\<lparr>instruments := (instruments ex)
                             (r := (instruments ex r)\<lparr>inst_parameters := task_parameters t\<rparr>)\<rparr>;
                    (res, w) = rf (world ex1) (instruments ex1 r);
                    ex2 = ex1\<lparr>world := w\<rparr>
                in case res of
                     Inl msg \<Rightarrow> (Raised (CallError msg), ex2)
                   | Inr v \<Rightarrow>
                       (let ex3 = ex2\<lparr>instruments := (instruments ex2)
                                   (r := (instruments ex2 r)\<lparr>inst_parameters := original_params\<rparr>)\<rparr>;
                            ex4 = set_result task_index (Value v) ex3
                        in (Completed, upd_seq (\<lambda>s. s\<lparr>results := (results s)(task_name t \<mapsto> v)\<rparr>) ex4)))
             else (Raised InvalidInstrument, ex)
         | _ \<Rightarrow> (Raised InvalidInstrument, ex))
      else if task_type t = ''delay'' then
        (let seconds = (case task_parameters t ''seconds'' of None \<Rightarrow> VInt 1 | Some v \<Rightarrow> v)
         in if sleep_returns lib seconds
            then (Completed, set_result task_index (Delayed seconds) ex)
            else (Raised (SleepError seconds), ex))
      else if task_type t = ''loop_start'' then
        (Completed,
         set_result task_index (LoopStarted (task_repeat t))
           (upd_seq (\<lambda>s. s\<lparr>loop_stack := loop_stack s @ [(task_index, 0, task_repeat t)]\<rparr>) ex))
      else if task_type t = ''loop_end'' then
        (if loop_stack (sequence ex) \<noteq> [] then
           (case last (loop_stack (sequence ex)) of
              (start_index, current_iter0, max_iter) \<Rightarrow>
                (let current_iter = current_iter0 + 1 in
                 if current_iter < max_iter then
                   (let ex1 = upd_seq (\<lambda>s. s\<lparr>loop_stack := butlast (loop_stack s)
                                              @ [(start_index, current_iter, max_iter)],
                                            current_task := start_index\<rparr>) ex;
                        ex2 = set_result task_index (LoopIteration (current_iter + 1) max_iter) ex1
                    in (Jumped,
                        emit (TaskCompleted task_index (LoopIteration (current_iter + 1) max_iter)) ex2))
                 else
                   (Completed,
                    set_result task_index LoopComplete
                      (upd_seq (\<lambda>s. s\<lparr>loop_stack := butlast (loop_stack s)\<rparr>) ex))))
         else (Completed, set_result task_index LoopEndWarning ex))
      else if task_type t = ''condition'' then
        (let result = evaluate_condition lib (results (sequence ex)) (task_condition t);
             ex1 = set_result task_index (ConditionEvaluated result) ex
         in if \<not> result \<and> task_index + 1 < length (tasks (sequence ex)) then
              (case task_parameters t ''else_index'' of
                 None \<Rightarrow> (Completed, ex1)
               | Some else_index \<Rightarrow>
                   if truthy lib else_index then
                     (case py_int lib else_index of
                        Inl e \<Rightarrow> (Raised e, ex1)
                      | Inr jump_index \<Rightarrow>
                          if 0 \<le> jump_index \<and> jump_index < int (length (tasks (sequence ex)))
                          then (Jumped,
                                emit (TaskCompleted task_index (ConditionEvaluated result))
                                  (upd_seq (\<lambda>s. s\<lparr>current_task := nat jump_index\<rparr>) ex1))
                          else (Completed, ex1))
                   else (Completed, ex1))
            else (Completed, ex1))
      else (Completed, set_result task_index (UnknownTaskType (task_type t)) ex))"

text \<open>Whether the \<open>while\<close> loop of \<open>run\<close> goes on.\<close>

definition loop_cond :: "('f, 't, 'w) executor \<Rightarrow> bool" where
  "loop_cond ex = (current_task (sequence ex) < length (tasks (sequence ex)) \<and> \<not> stopped ex)"

text \<open>
  The inner loop \<open>while self.paused and not self.stopped\<close>: it ends only when another
  thread changes a flag, so without interference it either is skipped or never ends
  (None for every amount of fuel).
\<close>

fun pause_loop :: "nat \<Rightarrow> ('f, 't, 'w) executor \<Rightarrow> ('f, 't, 'w) executor option" where
  "pause_loop 0 ex = (if paused ex \<and> \<not> stopped ex then None else Some ex)"
| "pause_loop (Suc n) ex =
     (if paused ex \<and> \<not> stopped ex
      then pause_loop n (emit SequencePaused (upd_seq (\<lambda>s. s\<lparr>seq_status := Paused\<rparr>) ex))
      else Some ex)"

datatype flow = Continue | Break

text \<open>
  The start of an iteration, up to the \<open>try\<close>: \<open>sequence.status = "running"\<close>,
  \<open>task.status = "running"\<close> and the task-started signal.
\<close>

definition begin_task :: "('f, 't, 'w) executor \<Rightarrow> ('f, 't, 'w) executor" where
  "begin_task ex =
     (let ex1 = upd_seq (\<lambda>s. s\<lparr>seq_status := Running\<rparr>) ex;
          task_index = current_task (sequence ex1)
      in emit (TaskStarted task_index)
           (upd_task task_index (\<lambda>t. t\<lparr>task_status := TaskRunning\<rparr>) ex1))"

text \<open>\<open>task.parameters.get("continue_on_error", False)\<close>, as a truth value.\<close>

definition continue_on_error :: "'f float_ops \<Rightarrow> 'f task \<Rightarrow> bool" where
  "continue_on_error lib t =
     (case task_parameters t ''continue_on_error'' of None \<Rightarrow> False | Some v \<Rightarrow> truthy lib v)"

text \<open>
  One iteration of the main loop, from \<open>sequence.status = "running"\<close> to the end of
  the loop body, for an executor that is not stopped and whose cursor is in range.
  The wait of \<open>task.delay\<close> milliseconds before the task only lets time pass.
\<close>

definition loop_body ::
  "'f float_ops \<Rightarrow> ('f, 'w) run_function \<Rightarrow> ('f, 't, 'w) executor \<Rightarrow>
   flow \<times> ('f, 't, 'w) executor" where
  "loop_body lib rf ex =
     (let task_index = current_task (sequence ex);
          t = tasks (sequence ex) ! task_index
      in case dispatch lib rf task_index t (begin_task ex) of
           (Completed, ex3) \<Rightarrow>
             (let ex4 = upd_task task_index (\<lambda>t. t\<lparr>task_status := TaskComplete\<rparr>) ex3;
                  ex5 = emit (TaskCompleted task_index (task_result (tasks (sequence ex4) ! task_index))) ex4
              in (Continue, upd_seq (\<lambda>s. s\<lparr>current_task := current_task s + 1\<rparr>) ex5))
         | (Jumped, ex3) \<Rightarrow> (Continue, ex3)
         | (Raised e, ex3) \<Rightarrow>
             (let ex4 = upd_task task_index
                          (\<lambda>t. t\<lparr>task_status := TaskErrored, task_result := ErrorText e\<rparr>) ex3;
                  ex5 = emit (TaskError task_index e) ex4
              in if \<not> continue_on_error lib t
                 then (Break, (upd_seq (\<lambda>s. s\<lparr>seq_status := Stopped\<rparr>) ex5)\<lparr>stopped := True\<rparr>)
                 else (Continue, upd_seq (\<lambda>s. s\<lparr>current_task := current_task s + 1\<rparr>) ex5)))"

text \<open>
  The main \<open>while\<close> loop, with fuel: one unit for each iteration, None when the fuel
  runs out before the loop has ended.
\<close>

fun main_loop ::
  "'f float_ops \<Rightarrow> ('f, 'w) run_function \<Rightarrow> nat \<Rightarrow> ('f, 't, 'w) executor \<Rightarrow>
   ('f, 't, 'w) executor option" where
  "main_loop lib rf 0 ex = (if loop_cond ex then None else Some ex)"
| "main_loop lib rf (Suc n) ex =
     (if loop_cond ex then
        (case pause_loop n ex of
           None \<Rightarrow> None
         | Some ex1 \<Rightarrow>
             if stopped ex1 then Some ex1
             else (case loop_body lib rf ex1 of
                     (Break, ex2) \<Rightarrow> Some ex2
                   | (Continue, ex2) \<Rightarrow> main_loop lib rf n ex2))
      else Some ex)"

text \<open>The code after the loop.\<close>

definition finish :: "('f, 't, 'w) executor \<Rightarrow> ('f, 't, 'w) executor" where
  "finish ex =
     (if current_task (sequence ex) \<ge> length (tasks (sequence ex)) \<and> \<not> stopped ex
      then emit SequenceCompleted (upd_seq (\<lambda>s. s\<lparr>seq_status := Complete\<rparr>) ex)
      else emit SequenceStopped (upd_seq (\<lambda>s. s\<lparr>seq_status := Stopped\<rparr>) ex))"

text \<open>The state in which the main loop is entered.\<close>

definition start :: "('f, 't, 'w) executor \<Rightarrow> ('f, 't, 'w) executor" where
  "start ex = upd_seq (\<lambda>s. (reset s)\<lparr>seq_status := Running\<rparr>) ex"

text \<open>\<open>SequenceExecutor.run\<close>\<close>

definition run ::
  "'f float_ops \<Rightarrow> ('f, 'w) run_function \<Rightarrow> nat \<Rightarrow> ('f, 't, 'w) executor \<Rightarrow>
   ('f, 't, 'w) executor option" where
  "run lib rf fuel ex = map_option finish (main_loop lib rf fuel (start ex))"

section \<open>Serialization\<close>

text \<open>
  What the engine needs from \<open>QDateTime\<close>, taken as parameters: truthiness (a null
  date-time is falsy), \<open>\<le>\<close>, \<open>toString(Qt.ISODate)\<close>,
  \<open>QDateTime.fromString(s, Qt.ISODate)\<close>, \<open>addDays\<close> and \<open>addMonths\<close>.
\<close>

record 't qdatetime_ops =
  dt_truthy :: "'t \<Rightarrow> bool"
  dt_le :: "'t \<Rightarrow> 't \<Rightarrow> bool"
  dt_toString :: "'t \<Rightarrow> string"
  dt_fromString :: "string \<Rightarrow> 't"
  dt_addDays :: "'t \<Rightarrow> int \<Rightarrow> 't"
  dt_addMonths :: "'t \<Rightarrow> int \<Rightarrow> 't"

text \<open>
  The dictionary of one task. A field is None when the key is absent or null;
  \<open>to_dict\<close> writes every key.
\<close>

record 'f task_data =
  td_name :: "string option"
  td_task_type :: "string option"
  td_target :: "string option"
  td_function :: "string option"
  td_parameters :: "(string \<rightharpoonup> 'f pyval) option"
  td_delay :: "int option"
  td_repeat :: "int option"
  td_condition :: "string option"

text \<open>
  The dictionary of one sequence, with the two keys \<open>save_sequences\<close> adds:
  \<open>metadata\<close> (last_modified, modified_by, app_version) and \<open>recurrence_type\<close>.
\<close>

record 'f sequence_data =
  sd_name :: "string option"
  sd_tasks :: "'f task_data list option"
  sd_scheduled_time :: "string option"
  sd_metadata :: "(string \<times> string \<times> string) option"
  sd_recurrence_type :: "string option"

datatype load_error = KeyError string

text \<open>\<open>ExperimentTask.to_dict\<close>\<close>

definition task_to_dict :: "(nat \<Rightarrow> 'f instrument) \<Rightarrow> 'f task \<Rightarrow> 'f task_data" where
  "task_to_dict store t =
     \<lparr>td_name = Some (task_name t),
      td_task_type = Some (task_type t),
      td_target = (case task_target t of None \<Rightarrow> None | Some r \<Rightarrow> Some (inst_name (store r))),
      td_function = task_function t,
      td_parameters = Some (task_parameters t),
      td_delay = Some (task_delay t),
      td_repeat = Some (task_repeat t),
      td_condition = task_condition t\<rparr>"

text \<open>
  The lookup of \<open>ExperimentTask.from_dict\<close>: the first instrument of the list that
  carries the stored name; no lookup when the stored name is falsy.
\<close>

definition find_target ::
  "(nat \<Rightarrow> 'f instrument) \<Rightarrow> nat list \<Rightarrow> string option \<Rightarrow> nat option" where
  "find_target store insts stored =
     (case stored of
        None \<Rightarrow> None
      | Some nm \<Rightarrow> if nm \<noteq> [] then find (\<lambda>r. inst_name (store r) = nm) insts else None)"

text \<open>\<open>ExperimentTask.from_dict\<close>\<close>

definition task_from_dict ::
  "(nat \<Rightarrow> 'f instrument) \<Rightarrow> nat list \<Rightarrow> 'f task_data \<Rightarrow> load_error + 'f task" where
  "task_from_dict store insts data =
     (let tg = find_target store insts (td_target data) in
      case td_name data of
        None \<Rightarrow> Inl (KeyError ''name'')
      | Some nm \<Rightarrow>
          (case td_task_type data of
             None \<Rightarrow> Inl (KeyError ''task_type'')
           | Some ty \<Rightarrow>
               Inr (ExperimentTask nm ty tg (td_function data)
                      (case td_parameters data of None \<Rightarrow> Map.empty | Some ps \<Rightarrow> ps)
                      (case td_delay data of None \<Rightarrow> 0 | Some d \<Rightarrow> d)
                      (case td_repeat data of None \<Rightarrow> 1 | Some r \<Rightarrow> r)
                      (td_condition data))))"

text \<open>\<open>ExperimentSequence.to_dict\<close>\<close>

definition to_dict ::
  "'t qdatetime_ops \<Rightarrow> (nat \<Rightarrow> 'f instrument) \<Rightarrow> ('f, 't) sequence \<Rightarrow> 'f sequence_data" where
  "to_dict q store s =
     \<lparr>sd_name = Some (seq_name s),
      sd_tasks = Some (map (task_to_dict store) (tasks s)),
      sd_scheduled_time =
        (case scheduled_time s of
           None \<Rightarrow> None
         | Some t \<Rightarrow> if dt_truthy q t then Some (dt_toString q t) else None),
      sd_metadata = None,
      sd_recurrence_type = None\<rparr>"

text \<open>The loop of \<open>ExperimentSequence.from_dict\<close> over the task dictionaries.\<close>

fun add_tasks_from ::
  "(nat \<Rightarrow> 'f instrument) \<Rightarrow> nat list \<Rightarrow> 'f task_data list \<Rightarrow> ('f, 't) sequence \<Rightarrow>
   load_error + ('f, 't) sequence" where
  "add_tasks_from store insts [] s = Inr s"
| "add_tasks_from store insts (d # ds) s =
     (case task_from_dict store insts d of
        Inl e \<Rightarrow> Inl e
      | Inr t \<Rightarrow> add_tasks_from store insts ds (add_task t s))"

text \<open>\<open>ExperimentSequence.from_dict\<close>\<close>

definition from_dict ::
  "'t qdatetime_ops \<Rightarrow> (nat \<Rightarrow> 'f instrument) \<Rightarrow> nat list \<Rightarrow> 'f sequence_data \<Rightarrow>
   load_error + ('f, 't) sequence" where
  "from_dict q store insts data =
     (case sd_name data of
        None \<Rightarrow> Inl (KeyError ''name'')
      | Some nm \<Rightarrow>
          (case add_tasks_from store insts
                  (case sd_tasks data of None \<Rightarrow> [] | Some ds \<Rightarrow> ds) (ExperimentSequence nm) of
             Inl e \<Rightarrow> Inl e
           | Inr s \<Rightarrow>
               (case sd_scheduled_time data of
                  None \<Rightarrow> Inr s
                | Some str \<Rightarrow>
                    if str \<noteq> [] then Inr (s\<lparr>scheduled_time := Some (dt_fromString q str)\<rparr>)
                    else Inr s)))"

text \<open>
  What \<open>save_sequences\<close> writes for one sequence (the dictionary handed to
  \<open>json.dump\<close>); \<open>now\<close> is \<open>datetime.now().isoformat()\<close>.
\<close>

definition save_sequence ::
  "'t qdatetime_ops \<Rightarrow> (nat \<Rightarrow> 'f instrument) \<Rightarrow> string \<Rightarrow> ('f, 't) sequence \<Rightarrow>
   'f sequence_data" where
  "save_sequence q store now s =
     (let sequence_data =
            (to_dict q store s)\<lparr>sd_metadata := Some (now, ''HamidHaghmoradi'', ''2.0.0'')\<rparr>
      in case recurrence_type s of
           None \<Rightarrow> sequence_data
         | Some k \<Rightarrow> sequence_data\<lparr>sd_recurrence_type := Some k\<rparr>)"

text \<open>
  What \<open>load_sequences\<close> makes of one file (the dictionary \<open>json.load\<close> returned);
  an error makes it skip the file.
\<close>

definition load_sequence ::
  "'t qdatetime_ops \<Rightarrow> (nat \<Rightarrow> 'f instrument) \<Rightarrow> nat list \<Rightarrow> 'f sequence_data \<Rightarrow>
   load_error + ('f, 't) sequence" where
  "load_sequence q store insts data =
     (case from_dict q store insts data of
        Inl e \<Rightarrow> Inl e
      | Inr s \<Rightarrow>
          (case sd_recurrence_type data of
             None \<Rightarrow> Inr s
           | Some k \<Rightarrow> Inr (s\<lparr>recurrence_type := Some k\<rparr>)))"

section \<open>The sequence manager\<close>

text \<open>
  The thread of an executor, as the manager sees it: \<open>isRunning()\<close> and the two flags.
\<close>

record thread =
  is_running :: bool
  th_paused :: bool
  th_stopped :: bool

text \<open>
  \<open>SequenceManager\<close>. \<open>started\<close> is not a field of the source: it lists, oldest
  first, the names of the sequences for which \<open>executor.start()\<close> was called. What
  the started threads then do to their sequences is not part of the manager's methods.
\<close>

record ('f, 't) manager =
  sequences :: "('f, 't) sequence list"
  executors :: "string \<rightharpoonup> thread"
  started :: "string list"

text \<open>\<open>stop_sequence\<close>: \<open>stop()\<close>, \<open>wait()\<close> and the removal of the executor.\<close>

definition stop_sequence ::
  "('f, 't) sequence \<Rightarrow> ('f, 't) manager \<Rightarrow> bool \<times> ('f, 't) manager" where
  "stop_sequence s m =
     (case executors m (seq_name s) of
        None \<Rightarrow> (False, m)
      | Some th \<Rightarrow>
          if is_running th then (True, m\<lparr>executors := (executors m)(seq_name s := None)\<rparr>)
          else (False, m))"

definition run_sequence ::
  "('f, 't) sequence \<Rightarrow> ('f, 't) manager \<Rightarrow> bool \<times> ('f, 't) manager" where
  "run_sequence s m =
     (let m1 = (if executors m (seq_name s) \<noteq> None then snd (stop_sequence s m) else m);
          executor = \<lparr>is_running = True, th_paused = False, th_stopped = False\<rparr>
      in (True, m1\<lparr>executors := (executors m1)(seq_name s \<mapsto> executor),
                   started := started m1 @ [seq_name s]\<rparr>))"

text \<open>The test of \<open>check_scheduled_sequences\<close> on one sequence.\<close>

definition is_due :: "'t qdatetime_ops \<Rightarrow> 't \<Rightarrow> ('f, 't) sequence \<Rightarrow> bool" where
  "is_due q current_time s =
     (seq_status s = Stopped \<and>
      (case scheduled_time s of
         None \<Rightarrow> False
       | Some t \<Rightarrow> dt_truthy q t \<and> dt_le q t current_time))"

text \<open>The new value of \<open>scheduled_time\<close> of a due sequence scheduled at \<open>t\<close>.\<close>

definition reschedule :: "'t qdatetime_ops \<Rightarrow> string option \<Rightarrow> 't \<Rightarrow> 't option" where
  "reschedule q recurrence t =
     (case recurrence of
        Some k \<Rightarrow>
          if k = ''Daily'' then Some (dt_addDays q t 1)
          else if k = ''Weekly'' then Some (dt_addDays q t 7)
          else if k = ''Monthly'' then Some (dt_addMonths q t 1)
          else None
      | None \<Rightarrow> None)"

text \<open>
  The loop of \<open>check_scheduled_sequences\<close> over \<open>self.sequences\<close>: it returns the
  sequences as the loop leaves them, and the manager.
\<close>

fun check_each ::
  "'t qdatetime_ops \<Rightarrow> 't \<Rightarrow> ('f, 't) sequence list \<Rightarrow> ('f, 't) manager \<Rightarrow>
   ('f, 't) sequence list \<times> ('f, 't) manager" where
  "check_each q current_time [] m = ([], m)"
| "check_each q current_time (s # ss) m =
     (if is_due q current_time s then
        (case scheduled_time s of
           None \<Rightarrow> (case check_each q current_time ss m of (ss', m') \<Rightarrow> (s # ss', m'))
         | Some t \<Rightarrow>
             (let s1 = s\<lparr>scheduled_time := reschedule q (recurrence_type s) t\<rparr>;
                  m1 = snd (run_sequence s1 m)
              in case check_each q current_time ss m1 of (ss', m') \<Rightarrow> (s1 # ss', m')))
      else (case check_each q current_time ss m of (ss', m') \<Rightarrow> (s # ss', m')))"

definition check_scheduled_sequences ::
  "'t qdatetime_ops \<Rightarrow> 't \<Rightarrow> ('f, 't) manager \<Rightarrow> ('f, 't) manager" where
  "check_scheduled_sequences q current_time m =
     (case check_each q current_time (sequences m) m of
        (ss, m') \<Rightarrow> m'\<lparr>sequences := ss\<rparr>)"

section \<open>Concrete inputs\<close>

text \<open>
  A float library restricted to floats of integral value, each represented by that
  integer: \<open>float("6")\<close> is 6.0.
\<close>

definition integral_floats :: "int float_ops" where
  "integral_floats =
     \<lparr>float_of_str = int_of_str, float_eq = (=), float_truthy = (\<lambda>x. x \<noteq> 0),
      float_to_int = Some, float_sleepable = (\<lambda>x. 0 \<le> x)\<rparr>"

text \<open>A store in which every address holds a meter with one parameter.\<close>

definition meters :: "nat \<Rightarrow> int instrument" where
  "meters = (\<lambda>r. \<lparr>inst_name = ''meter'', inst_parameters = [''range'' \<mapsto> VInt 1]\<rparr>)"

text \<open>
  Two instrument calls; the world counts the calls made. The first returns 5, the
  second raises.
\<close>

definition reads_five :: "(int, nat) run_function" where
  "reads_five w inst = (Inr (VInt 5), Suc w)"

definition call_fails :: "(int, nat) run_function" where
  "call_fails w inst = (Inl ''timeout'', Suc w)"

definition two_tasks :: "(int, int) sequence" where
  "two_tasks =
     (ExperimentSequence ''warm up'')
       \<lparr>tasks := [ExperimentTask ''wait'' ''delay'' None None [''seconds'' \<mapsto> VInt 1] 0 1 None,
                  ExperimentTask ''x'' ''instrument'' (Some 0) (Some ''read'') Map.empty 0 1 None]\<rparr>"

text \<open>
  An instrument task with the given parameters, followed by a delay.
\<close>

definition probe_then_wait :: "(string \<rightharpoonup> int pyval) \<Rightarrow> (int, int) sequence" where
  "probe_then_wait ps =
     (ExperimentSequence ''probe'')
       \<lparr>tasks := [ExperimentTask ''x'' ''instrument'' (Some 0) (Some ''read'') ps 0 1 None,
                  ExperimentTask ''wait'' ''delay'' None None [''seconds'' \<mapsto> VInt 1] 0 1 None]\<rparr>"

text \<open>The executor of that sequence when the main loop is entered.\<close>

definition probing :: "(string \<rightharpoonup> int pyval) \<Rightarrow> (int, int, nat) executor" where
  "probing ps = start (SequenceExecutor (probe_then_wait ps) meters 0)"

text \<open>
  Sequences with a condition on the result of the instrument task \<open>x\<close>: the condition
  as the last task, the same followed by one more task, a condition whose else branch is
  the first task, and a condition whose else branch is given as text.
\<close>

definition branch_last :: "(int, int) sequence" where
  "branch_last =
     (ExperimentSequence ''branch'')
       \<lparr>tasks := [ExperimentTask ''x'' ''instrument'' (Some 0) (Some ''read'') Map.empty 0 1 None,
                  ExperimentTask ''wait'' ''delay'' None None [''seconds'' \<mapsto> VInt 1] 0 1 None,
                  ExperimentTask ''check'' ''condition'' None None [''else_index'' \<mapsto> VInt 1] 0 1
                    (Some ''x == 6'')]\<rparr>"

definition branch_back :: "(int, int) sequence" where
  "branch_back = add_task (ExperimentTask ''done'' ''delay'' None None Map.empty 0 1 None) branch_last"

definition branch_to_first :: "(int, int) sequence" where
  "branch_to_first =
     (ExperimentSequence ''retry'')
       \<lparr>tasks := [ExperimentTask ''x'' ''instrument'' (Some 0) (Some ''read'') Map.empty 0 1 None,
                  ExperimentTask ''check'' ''condition'' None None [''else_index'' \<mapsto> VInt 0] 0 1
                    (Some ''x == 6''),
                  ExperimentTask ''wait'' ''delay'' None None [''seconds'' \<mapsto> VInt 1] 0 1 None]\<rparr>"


text \<open>
  The executor of \<open>branch_back\<close> when the cursor has reached the condition and the
  instrument task has stored 5.
\<close>

definition at_check :: "(int, int, nat) executor" where
  "at_check =
     upd_seq (\<lambda>s. s\<lparr>current_task := 2, results := [''x'' \<mapsto> VInt 5]\<rparr>)
       (start (SequenceExecutor branch_back meters 0))"

text \<open>A loop of three iterations around one delay of zero seconds.\<close>

definition loop3 :: "(int, int) sequence" where
  "loop3 =
     (ExperimentSequence ''three times'')
       \<lparr>tasks := [ExperimentTask ''begin'' ''loop_start'' None None Map.empty 0 3 None,
                  ExperimentTask ''body'' ''delay'' None None [''seconds'' \<mapsto> VInt 0] 0 1 None,
                  ExperimentTask ''end'' ''loop_end'' None None Map.empty 0 1 None]\<rparr>"

text \<open>
  The executor after \<open>n\<close> iterations of the main loop's body, for looking into a run
  that is under way.
\<close>

fun iterations ::
  "'f float_ops \<Rightarrow> ('f, 'w) run_function \<Rightarrow> nat \<Rightarrow> ('f, 't, 'w) executor \<Rightarrow> ('f, 't, 'w) executor" where
  "iterations lib rf 0 ex = ex"
| "iterations lib rf (Suc n) ex = iterations lib rf n (snd (loop_body lib rf ex))"

text \<open>
  A date-time library for evaluation: a date-time is its number of seconds since the
  epoch in UTC, where a day has 86400 seconds; its text is the decimal numeral (standing
  in for the ISO text), and a month is taken as 30 days.
\<close>

function show_nat :: "nat \<Rightarrow> string" where
  "show_nat n = (if n < 10 then [''0123456789'' ! n]
                 else show_nat (n div 10) @ [''0123456789'' ! (n mod 10)])"
  by pat_completeness auto
termination
  by (relation "measure id") auto

definition show_int :: "int \<Rightarrow> string" where
  "show_int i = (if i < 0 then CHR ''-'' # show_nat (nat (- i)) else show_nat (nat i))"

definition epoch_seconds :: "int qdatetime_ops" where
  "epoch_seconds =
     \<lparr>dt_truthy = (\<lambda>t. True), dt_le = (\<le>), dt_toString = show_int,
      dt_fromString = (\<lambda>s. case int_of_str s of None \<Rightarrow> 0 | Some t \<Rightarrow> t),
      dt_addDays = (\<lambda>t n. t + n * 86400),
      dt_addMonths = (\<lambda>t n. t + n * 30 * 86400)\<rparr>"

text \<open>
  A sequence that has run, scheduled for the second day of the epoch and recurring daily;
  and a manager of three sequences, all Stopped: that one, one scheduled for 01:00 of the
  first day without recurrence, and one scheduled later than the time of the check.
\<close>

definition nightly :: "(int, int) sequence" where
  "nightly = two_tasks\<lparr>scheduled_time := Some 86400, recurrence_type := Some ''Daily'',
                       seq_status := Complete, current_task := 2\<rparr>"

definition lab :: "(int, int) manager" where
  "lab = \<lparr>sequences = [nightly\<lparr>seq_status := Stopped, seq_name := ''nightly''\<rparr>,
                         two_tasks\<lparr>scheduled_time := Some 3600\<rparr>,
                         two_tasks\<lparr>seq_name := ''later'', scheduled_time := Some 200000\<rparr>],
          executors = Map.empty, started = []\<rparr>"

text \<open>The same loop with a single iteration.\<close>

definition loop1 :: "(int, int) sequence" where
  "loop1 =
     (ExperimentSequence ''once'')
       \<lparr>tasks := [ExperimentTask ''begin'' ''loop_start'' None None Map.empty 0 1 None,
                  ExperimentTask ''body'' ''delay'' None None [''seconds'' \<mapsto> VInt 0] 0 1 None,
                  ExperimentTask ''end'' ''loop_end'' None None Map.empty 0 1 None]\<rparr>"

section \<open>Editing the task list\<close>

text \<open>
  C9. On an index outside the task list, \<open>remove_task\<close>, \<open>move_task_up\<close> and
  \<open>move_task_down\<close> change nothing (none of them has a raising path); moving the
  first task up and moving the last task down change nothing either.
\<close>

theorem invalid_index_is_noop:
  "(\<not> (0 \<le> index \<and> index < int (length (tasks s))) \<longrightarrow>
      remove_task index s = s \<and> move_task_up index s = s \<and> move_task_down index s = s)
   \<and> move_task_up 0 s = s
   \<and> move_task_down (int (length (tasks s)) - 1) s = s"
  by (auto simp: remove_task_def move_task_up_def move_task_down_def)

theorem invalid_index_is_noop_witness:
  "\<not> (0 \<le> (2::int) \<and> (2::int) < int (length (tasks two_tasks)))
   \<and> remove_task 2 two_tasks = two_tasks
   \<and> move_task_up 2 two_tasks = two_tasks
   \<and> move_task_down 2 two_tasks = two_tasks
   \<and> remove_task (- 1) two_tasks = two_tasks
   \<and> move_task_up 0 two_tasks = two_tasks
   \<and> move_task_down 1 two_tasks = two_tasks"
proof -
  have len: "length (tasks two_tasks) = 2"
    by (simp add: two_tasks_def)
  have out: "\<not> (0 \<le> (2::int) \<and> (2::int) < int (length (tasks two_tasks)))"
    by (simp add: len)
  have neg: "\<not> (0 \<le> (- 1::int) \<and> (- 1::int) < int (length (tasks two_tasks)))"
    by simp
  show ?thesis
    using invalid_index_is_noop [of 2 two_tasks] invalid_index_is_noop [of "- 1" two_tasks]
      out neg len
    by simp
qed

section \<open>The run\<close>

lemmas exec_defs =
  dispatch_def begin_task_def loop_body_def upd_seq_def upd_task_def set_result_def emit_def
  continue_on_error_def loop_cond_def finish_def start_def run_def reset_def reset_task_def
  SequenceExecutor_def ExperimentSequence_def ExperimentTask_def

lemma reset_forgets:
  "reset (s\<lparr>current_task := c, results := r, loop_stack := l, seq_status := st,
            tasks := map (\<lambda>t. t\<lparr>task_status := f t, task_result := g t\<rparr>) (tasks s)\<rparr>) = reset s"
  by (simp add: reset_def reset_task_def comp_def)

text \<open>
  C10. A run starts from the reset sequence: its result does not depend on the cursor,
  the results, the loop stack, the status or the task statuses and results the sequence
  had before; the main loop is entered with cursor 0, no results, an empty loop stack and
  every task pending without a result.
\<close>

theorem run_starts_from_reset:
  "run lib rf n (ex\<lparr>sequence := (sequence ex)\<lparr>current_task := c, results := r, loop_stack := l,
        seq_status := st,
        tasks := map (\<lambda>t. t\<lparr>task_status := f t, task_result := g t\<rparr>) (tasks (sequence ex))\<rparr>\<rparr>)
     = run lib rf n ex
   \<and> run lib rf n ex = map_option finish (main_loop lib rf n (start ex))
   \<and> current_task (sequence (start ex)) = 0
   \<and> results (sequence (start ex)) = Map.empty
   \<and> loop_stack (sequence (start ex)) = []
   \<and> map task_status (tasks (sequence (start ex))) = replicate (length (tasks (sequence ex))) Pending
   \<and> map task_result (tasks (sequence (start ex))) = replicate (length (tasks (sequence ex))) (Value VNone)"
proof -
  have "start (ex\<lparr>sequence := (sequence ex)\<lparr>current_task := c, results := r, loop_stack := l,
        seq_status := st,
        tasks := map (\<lambda>t. t\<lparr>task_status := f t, task_result := g t\<rparr>) (tasks (sequence ex))\<rparr>\<rparr>)
      = start ex"
    by (simp add: start_def upd_seq_def reset_forgets)
  moreover have "map task_status (tasks (sequence (start ex))) = replicate (length (tasks (sequence ex))) Pending"
    by (simp add: start_def upd_seq_def reset_def reset_task_def comp_def map_replicate_const)
  moreover have "map task_result (tasks (sequence (start ex))) = replicate (length (tasks (sequence ex))) (Value VNone)"
    by (simp add: start_def upd_seq_def reset_def reset_task_def comp_def map_replicate_const)
  ultimately show ?thesis
    by (simp add: run_def start_def upd_seq_def reset_def)
qed

text \<open>
  C8. A sequence without tasks, reset and then run by a new executor: the run returns
  for every amount of fuel (no iteration is needed), with status Complete, no results,
  and the sequence-completed signal as the only signal emitted.
\<close>

theorem empty_sequence_completes:
  "tasks s = [] \<Longrightarrow>
   map_option (\<lambda>ex. (seq_status (sequence ex), results (sequence ex), emitted ex))
     (run lib rf n (SequenceExecutor (reset s) store w))
   = Some (Complete, Map.empty, [SequenceCompleted])"
  by (cases n)
     (simp_all add: run_def start_def upd_seq_def reset_def SequenceExecutor_def loop_cond_def
        finish_def emit_def)

theorem empty_sequence_completes_witness:
  "tasks (ExperimentSequence ''idle'' :: (int, int) sequence) = []
   \<and> map_option (\<lambda>ex. (seq_status (sequence ex), results (sequence ex), emitted ex))
       (run integral_floats reads_five 0
          (SequenceExecutor (reset (ExperimentSequence ''idle'' :: (int, int) sequence)) meters 0))
     = Some (Complete, Map.empty, [SequenceCompleted])"
proof -
  have h: "tasks (ExperimentSequence ''idle'' :: (int, int) sequence) = []"
    by (simp add: ExperimentSequence_def)
  show ?thesis
    using h empty_sequence_completes [OF h, of integral_floats reads_five 0 meters 0]
    by simp
qed

section \<open>Failure of a task\<close>

lemma dispatch_raised_frame:
  assumes "dispatch lib rf i t ex = (Raised e, ex')"
  shows "current_task (sequence ex') = current_task (sequence ex)
       \<and> seq_status (sequence ex') = seq_status (sequence ex)
       \<and> stopped ex' = stopped ex \<and> paused ex' = paused ex"
  using assms
  by (auto simp: dispatch_def upd_seq_def upd_task_def set_result_def emit_def Let_def
           split: if_splits option.splits sum.splits prod.splits)

lemma begin_task_frame:
  "current_task (sequence (begin_task ex)) = current_task (sequence ex)
   \<and> seq_status (sequence (begin_task ex)) = Running
   \<and> stopped (begin_task ex) = stopped ex \<and> paused (begin_task ex) = paused ex"
  by (simp add: begin_task_def upd_seq_def upd_task_def emit_def Let_def)

lemma pause_loop_skipped: "\<not> paused ex \<Longrightarrow> pause_loop n ex = Some ex"
  by (cases n) simp_all

text \<open>
  C5. An iteration of the main loop whose dispatch raises. With a truthy
  \<open>continue_on_error\<close> the iteration ends with the status still Running, the stopped
  flag clear and the cursor on the next task, and the loop goes on from there. Otherwise
  the status becomes Stopped, the stopped flag is set, the loop is left at once, and the
  code after the loop leaves the status Stopped.
\<close>

theorem failure_policy:
  assumes "loop_cond ex" and "\<not> paused ex"
    and "fst (dispatch lib rf (current_task (sequence ex))
               (tasks (sequence ex) ! current_task (sequence ex)) (begin_task ex)) = Raised e"
  shows "if continue_on_error lib (tasks (sequence ex) ! current_task (sequence ex))
         then fst (loop_body lib rf ex) = Continue
            \<and> seq_status (sequence (snd (loop_body lib rf ex))) = Running
            \<and> \<not> stopped (snd (loop_body lib rf ex))
            \<and> current_task (sequence (snd (loop_body lib rf ex))) = current_task (sequence ex) + 1
            \<and> main_loop lib rf (Suc n) ex = main_loop lib rf n (snd (loop_body lib rf ex))
         else fst (loop_body lib rf ex) = Break
            \<and> seq_status (sequence (snd (loop_body lib rf ex))) = Stopped
            \<and> stopped (snd (loop_body lib rf ex))
            \<and> main_loop lib rf (Suc n) ex = Some (snd (loop_body lib rf ex))
            \<and> seq_status (sequence (finish (snd (loop_body lib rf ex)))) = Stopped"
proof -
  obtain ex' where d: "dispatch lib rf (current_task (sequence ex))
               (tasks (sequence ex) ! current_task (sequence ex)) (begin_task ex) = (Raised e, ex')"
    using assms(3) by (cases "dispatch lib rf (current_task (sequence ex))
               (tasks (sequence ex) ! current_task (sequence ex)) (begin_task ex)") auto
  note fr = dispatch_raised_frame [OF d] begin_task_frame [of ex]
  have ns: "\<not> stopped ex" using assms(1) by (simp add: loop_cond_def)
  show ?thesis
  proof (cases "continue_on_error lib (tasks (sequence ex) ! current_task (sequence ex))")
    case True
    have lb: "loop_body lib rf ex =
        (Continue, upd_seq (\<lambda>s. s\<lparr>current_task := current_task s + 1\<rparr>)
           (emit (TaskError (current_task (sequence ex)) e)
             (upd_task (current_task (sequence ex))
                (\<lambda>t. t\<lparr>task_status := TaskErrored, task_result := ErrorText e\<rparr>) ex')))"
      using True d by (simp add: loop_body_def Let_def)
    show ?thesis
      using True fr ns assms(1,2)
      by (simp add: lb pause_loop_skipped upd_seq_def upd_task_def emit_def)
  next
    case False
    have lb: "loop_body lib rf ex =
        (Break, (upd_seq (\<lambda>s. s\<lparr>seq_status := Stopped\<rparr>)
           (emit (TaskError (current_task (sequence ex)) e)
             (upd_task (current_task (sequence ex))
                (\<lambda>t. t\<lparr>task_status := TaskErrored, task_result := ErrorText e\<rparr>) ex')))\<lparr>stopped := True\<rparr>)"
      using False d by (simp add: loop_body_def Let_def)
    show ?thesis
      using False fr ns assms(1,2)
      by (simp add: lb pause_loop_skipped upd_seq_def upd_task_def emit_def finish_def)
  qed
qed

lemma probing_facts:
  "loop_cond (probing ps)"
  "\<not> paused (probing ps)"
  "current_task (sequence (probing ps)) = 0"
  "task_parameters (tasks (sequence (probing ps)) ! 0) = ps"
  by (simp_all add: probing_def exec_defs probe_then_wait_def)

lemma call_fails_dispatch:
  "fst (dispatch integral_floats call_fails (current_task (sequence (probing ps)))
          (tasks (sequence (probing ps)) ! current_task (sequence (probing ps)))
          (begin_task (probing ps)))
   = Raised (CallError ''timeout'')"
  by (simp add: probing_def exec_defs probe_then_wait_def call_fails_def meters_def Let_def)

theorem failure_policy_witness:
  "loop_cond (probing [''continue_on_error'' \<mapsto> VBool True])
   \<and> \<not> paused (probing [''continue_on_error'' \<mapsto> VBool True])
   \<and> fst (dispatch integral_floats call_fails
            (current_task (sequence (probing [''continue_on_error'' \<mapsto> VBool True])))
            (tasks (sequence (probing [''continue_on_error'' \<mapsto> VBool True]))
               ! current_task (sequence (probing [''continue_on_error'' \<mapsto> VBool True])))
            (begin_task (probing [''continue_on_error'' \<mapsto> VBool True])))
       = Raised (CallError ''timeout'')
   \<and> fst (loop_body integral_floats call_fails (probing [''continue_on_error'' \<mapsto> VBool True]))
       = Continue
   \<and> seq_status (sequence (snd (loop_body integral_floats call_fails
         (probing [''continue_on_error'' \<mapsto> VBool True])))) = Running
   \<and> current_task (sequence (snd (loop_body integral_floats call_fails
         (probing [''continue_on_error'' \<mapsto> VBool True])))) = 1
   \<and> loop_cond (probing Map.empty)
   \<and> \<not> paused (probing Map.empty)
   \<and> fst (dispatch integral_floats call_fails
            (current_task (sequence (probing Map.empty)))
            (tasks (sequence (probing Map.empty)) ! current_task (sequence (probing Map.empty)))
            (begin_task (probing Map.empty)))
       = Raised (CallError ''timeout'')
   \<and> fst (loop_body integral_floats call_fails (probing Map.empty)) = Break
   \<and> stopped (snd (loop_body integral_floats call_fails (probing Map.empty)))
   \<and> seq_status (sequence (snd (loop_body integral_floats call_fails (probing Map.empty))))
       = Stopped"
proof -
  let ?a = "probing [''continue_on_error'' \<mapsto> VBool True]"
  let ?b = "probing Map.empty"
  have ta: "continue_on_error integral_floats (tasks (sequence ?a) ! current_task (sequence ?a))"
    by (simp add: probing_facts continue_on_error_def)
  have tb: "\<not> continue_on_error integral_floats (tasks (sequence ?b) ! current_task (sequence ?b))"
    by (simp add: probing_facts continue_on_error_def)
  have ca: "loop_cond ?a" and pa: "\<not> paused ?a" and cb: "loop_cond ?b" and pb: "\<not> paused ?b"
    by (simp_all add: probing_facts)
  have da: "fst (dispatch integral_floats call_fails (current_task (sequence ?a))
                  (tasks (sequence ?a) ! current_task (sequence ?a)) (begin_task ?a))
            = Raised (CallError ''timeout'')"
    by (rule call_fails_dispatch)
  have db: "fst (dispatch integral_floats call_fails (current_task (sequence ?b))
                  (tasks (sequence ?b) ! current_task (sequence ?b)) (begin_task ?b))
            = Raised (CallError ''timeout'')"
    by (rule call_fails_dispatch)
  note A0 = failure_policy [OF ca pa da, of 0, unfolded if_P [OF ta]]
  note B0 = failure_policy [OF cb pb db, of 0, unfolded if_not_P [OF tb]]
  note A = A0 [THEN conjunct1] A0 [THEN conjunct2, THEN conjunct1]
           A0 [THEN conjunct2, THEN conjunct2, THEN conjunct2, THEN conjunct1]
  note B = B0 [THEN conjunct1] B0 [THEN conjunct2, THEN conjunct1]
           B0 [THEN conjunct2, THEN conjunct2, THEN conjunct1]
  show ?thesis
    using A B ca pa cb pb da db
    by (simp add: probing_facts(3))
qed

section \<open>The instrument's parameters\<close>

text \<open>
  When the instrument call returns, the dispatch of an instrument task leaves every
  instrument's parameters as they were.
\<close>

lemma override_restored_on_return:
  assumes "task_type t = ''instrument''"
    and "fst (dispatch lib rf i t ex) = Completed"
  shows "instruments (snd (dispatch lib rf i t ex)) = instruments ex"
  using assms
  by (auto simp: dispatch_def upd_seq_def upd_task_def set_result_def Let_def
           split: option.splits if_splits prod.splits sum.splits)


text \<open>
  C2, at an input where it fails: the meter has \<open>range = 1\<close>, the task overrides it
  with \<open>range = 10\<close>, and the call raises. The run ends with the task's error and
  status Stopped, and the meter is left with \<open>range = 10\<close>: the assignment that
  restores the parameters comes after the call and is skipped by the exception.
\<close>

theorem override_left_installed_on_exception:
  "inst_parameters (meters 0) ''range'' = Some (VInt 1)
   \<and> map_option (\<lambda>ex. (inst_parameters (instruments ex 0) ''range'', emitted ex,
                        seq_status (sequence ex)))
       (run integral_floats call_fails (Suc 0)
          (SequenceExecutor (probe_then_wait [''range'' \<mapsto> VInt 10]) meters 0))
     = Some (Some (VInt 10), [TaskStarted 0, TaskError 0 (CallError ''timeout''), SequenceStopped],
             Stopped)"
  by (simp add: exec_defs probe_then_wait_def call_fails_def meters_def Let_def)


section \<open>Conditions\<close>

lemmas str_defs = evaluate_condition_def strip_def is_space_def int_of_str_def is_int_space_def unsigned_of_str_def digit_of_def


text \<open>
  C3 as stated fails on a condition that is the last task: the condition is false and its
  \<open>else_index\<close> 1 is in range, yet the run goes past the condition to the end
  (cursor 3, Complete) instead of going back to task 1.
\<close>

theorem condition_on_last_task_counterexample:
  "task_type (tasks branch_last ! 2) = ''condition''
   \<and> task_parameters (tasks branch_last ! 2) ''else_index'' = Some (VInt 1)
   \<and> (1::int) < int (length (tasks branch_last))
   \<and> map_option (\<lambda>ex. (emitted ex, current_task (sequence ex), seq_status (sequence ex)))
       (run integral_floats reads_five (Suc (Suc (Suc 0))) (SequenceExecutor branch_last meters 0))
     = Some ([TaskStarted 0, TaskCompleted 0 (Value (VInt 5)),
              TaskStarted 1, TaskCompleted 1 (Delayed (VInt 1)),
              TaskStarted 2, TaskCompleted 2 (ConditionEvaluated False),
              SequenceCompleted], 3, Complete)"
  by (simp add: exec_defs branch_last_def reads_five_def meters_def Let_def str_defs)


text \<open>
  With \<open>else_index = 0\<close> the test \<open>task.parameters.get("else_index")\<close> is falsy:
  the run goes on with the next task and never returns to task 0.
\<close>

lemma else_index_zero_falls_through:
  "map_option (\<lambda>ex. (emitted ex, current_task (sequence ex), seq_status (sequence ex)))
       (run integral_floats reads_five (Suc (Suc (Suc 0))) (SequenceExecutor branch_to_first meters 0))
     = Some ([TaskStarted 0, TaskCompleted 0 (Value (VInt 5)),
              TaskStarted 1, TaskCompleted 1 (ConditionEvaluated False),
              TaskStarted 2, TaskCompleted 2 (Delayed (VInt 1)),
              SequenceCompleted], 3, Complete)"
  by (simp add: exec_defs branch_to_first_def reads_five_def meters_def Let_def str_defs)


text \<open>
  C3, amended. A condition task that is not the last task, whose condition evaluates to
  false and whose \<open>else_index\<close> is truthy and converts to an index in range: the
  iteration ends with the cursor on that index.
\<close>

theorem false_condition_jumps_to_else_index:
  assumes "current_task (sequence ex) + 1 < length (tasks (sequence ex))"
    and "task_type (tasks (sequence ex) ! current_task (sequence ex)) = ''condition''"
    and "\<not> evaluate_condition lib (results (sequence ex))
             (task_condition (tasks (sequence ex) ! current_task (sequence ex)))"
    and "task_parameters (tasks (sequence ex) ! current_task (sequence ex)) ''else_index'' = Some v"
    and "truthy lib v" and "py_int lib v = Inr j"
    and "0 \<le> j" and "j < int (length (tasks (sequence ex)))"
  shows "fst (loop_body lib rf ex) = Continue
       \<and> current_task (sequence (snd (loop_body lib rf ex))) = nat j"
  using assms
  by (simp add: loop_body_def dispatch_def begin_task_def upd_seq_def upd_task_def
        set_result_def emit_def Let_def)

lemma at_check_facts:
  "current_task (sequence at_check) = 2"
  "length (tasks (sequence at_check)) = 4"
  "task_type (tasks (sequence at_check) ! 2) = ''condition''"
  "task_condition (tasks (sequence at_check) ! 2) = Some ''x == 6''"
  "task_parameters (tasks (sequence at_check) ! 2) ''else_index'' = Some (VInt 1)"
  "results (sequence at_check) = [''x'' \<mapsto> VInt 5]"
  "emitted at_check = []"
  by (simp_all add: at_check_def exec_defs branch_back_def branch_last_def add_task_def)

theorem false_condition_jumps_to_else_index_witness:
  "current_task (sequence at_check) + 1 < length (tasks (sequence at_check))
   \<and> task_type (tasks (sequence at_check) ! current_task (sequence at_check)) = ''condition''
   \<and> \<not> evaluate_condition integral_floats (results (sequence at_check))
         (task_condition (tasks (sequence at_check) ! current_task (sequence at_check)))
   \<and> task_parameters (tasks (sequence at_check) ! current_task (sequence at_check)) ''else_index''
       = Some (VInt 1)
   \<and> truthy integral_floats (VInt 1) \<and> py_int integral_floats (VInt 1) = Inr 1
   \<and> (0::int) \<le> 1 \<and> 1 < int (length (tasks (sequence at_check)))
   \<and> fst (loop_body integral_floats reads_five at_check) = Continue
   \<and> current_task (sequence (snd (loop_body integral_floats reads_five at_check))) = 1"
proof -
  have h1: "current_task (sequence at_check) + 1 < length (tasks (sequence at_check))"
    by (simp add: at_check_facts)
  have h2: "task_type (tasks (sequence at_check) ! current_task (sequence at_check)) = ''condition''"
    by (simp add: at_check_facts)
  have h3: "\<not> evaluate_condition integral_floats (results (sequence at_check))
         (task_condition (tasks (sequence at_check) ! current_task (sequence at_check)))"
    by (simp add: at_check_facts str_defs)
  have h4: "task_parameters (tasks (sequence at_check) ! current_task (sequence at_check)) ''else_index''
       = Some (VInt 1)"
    by (simp add: at_check_facts)
  have h5: "truthy integral_floats (VInt 1)" and h6: "py_int integral_floats (VInt 1) = Inr 1"
    by simp_all
  have h7: "(0::int) \<le> 1" and h8: "1 < int (length (tasks (sequence at_check)))"
    by (simp_all add: at_check_facts)
  note c = false_condition_jumps_to_else_index [OF h1 h2 h3 h4 h5 h6 h7 h8, of reads_five]
  show ?thesis
    using h1 h2 h3 h4 h5 h6 h7 h8 c by simp
qed





section \<open>Repetition\<close>

text \<open>
  One iteration of the main loop on a sequence of the shape of \<open>loop3\<close>: the cursor
  is on the loop start, or on the body or the loop end with the frame \<open>(0, 0, 3)\<close> on
  top of the stack. The iteration continues, and the same holds afterwards.
\<close>

lemma loop3_step:
  assumes "tasks (sequence ex) = [a, b, c]"
    and "task_type a = ''loop_start''" and "task_repeat a = 3"
    and "task_type b = ''delay''" and "task_parameters b ''seconds'' = Some (VInt 0)"
    and "task_type c = ''loop_end''"
    and "\<not> paused ex" and "\<not> stopped ex"
    and "current_task (sequence ex) = 0
         \<or> (current_task (sequence ex) = 1 \<or> current_task (sequence ex) = 2)
            \<and> loop_stack (sequence ex) \<noteq> [] \<and> last (loop_stack (sequence ex)) = (0, 0, 3)"
  shows "\<exists>ex' a' b' c'. loop_body lib rf ex = (Continue, ex')
       \<and> tasks (sequence ex') = [a', b', c']
       \<and> task_type a' = ''loop_start'' \<and> task_repeat a' = 3
       \<and> task_type b' = ''delay'' \<and> task_parameters b' ''seconds'' = Some (VInt 0)
       \<and> task_type c' = ''loop_end''
       \<and> \<not> paused ex' \<and> \<not> stopped ex'
       \<and> (current_task (sequence ex') = 0
         \<or> (current_task (sequence ex') = 1 \<or> current_task (sequence ex') = 2)
            \<and> loop_stack (sequence ex') \<noteq> [] \<and> last (loop_stack (sequence ex')) = (0, 0, 3))
       \<and> length (loop_stack (sequence ex')) \<ge> length (loop_stack (sequence ex))"
  using assms
  by (auto simp: loop_body_def dispatch_def begin_task_def upd_seq_def upd_task_def
        set_result_def emit_def Let_def)

lemma loop3_never_leaves:
  assumes "tasks (sequence ex) = [a, b, c]"
    and "task_type a = ''loop_start''" and "task_repeat a = 3"
    and "task_type b = ''delay''" and "task_parameters b ''seconds'' = Some (VInt 0)"
    and "task_type c = ''loop_end''"
    and "\<not> paused ex" and "\<not> stopped ex"
    and "current_task (sequence ex) = 0
         \<or> (current_task (sequence ex) = 1 \<or> current_task (sequence ex) = 2)
            \<and> loop_stack (sequence ex) \<noteq> [] \<and> last (loop_stack (sequence ex)) = (0, 0, 3)"
  shows "main_loop lib rf n ex = None"
  using assms
proof (induction n arbitrary: ex a b c)
  case 0
  then show ?case by (auto simp: loop_cond_def)
next
  case (Suc n)
  have lc: "loop_cond ex"
    using Suc.prems by (auto simp: loop_cond_def)
  obtain ex' a' b' c' where st: "loop_body lib rf ex = (Continue, ex')"
      "tasks (sequence ex') = [a', b', c']"
      "task_type a' = ''loop_start''" "task_repeat a' = 3"
      "task_type b' = ''delay''" "task_parameters b' ''seconds'' = Some (VInt 0)"
      "task_type c' = ''loop_end''" "\<not> paused ex'" "\<not> stopped ex'"
      "current_task (sequence ex') = 0
         \<or> (current_task (sequence ex') = 1 \<or> current_task (sequence ex') = 2)
            \<and> loop_stack (sequence ex') \<noteq> [] \<and> last (loop_stack (sequence ex')) = (0, 0, 3)"
    using loop3_step [OF Suc.prems, of lib rf] by blast
  have "main_loop lib rf n ex' = None"
    by (rule Suc.IH [OF st(2-10)])
  then show ?case
    using lc Suc.prems(7,8) st(1) by (simp add: pause_loop_skipped)
qed


text \<open>
  C1, at an input where it fails: a loop start with repeat 3, one body task and a loop
  end. The loop end sets the cursor to the index of the loop start itself, so the loop
  start runs again and pushes a new frame \<open>(0, 0, 3)\<close>; the loop end then always
  finds iteration 0 on top. The run never returns, whatever the fuel.
\<close>

theorem loop_repeat3_never_completes:
  "run lib rf n (SequenceExecutor loop3 store w) = None"
proof -
  have "main_loop lib rf n (start (SequenceExecutor loop3 store w)) = None"
    by (rule loop3_never_leaves [where a = "ExperimentTask ''begin'' ''loop_start'' None None Map.empty 0 3 None"
          and b = "ExperimentTask ''body'' ''delay'' None None [''seconds'' \<mapsto> VInt 0] 0 1 None"
          and c = "ExperimentTask ''end'' ''loop_end'' None None Map.empty 0 1 None"])
       (simp_all add: exec_defs loop3_def)
  then show ?thesis by (simp add: run_def)
qed


text \<open>
  After eleven iterations the body has been started a fourth time and four frames are
  on the loop stack.
\<close>

lemma loop3_fourth_pass:
  "(\<lambda>ex. (length (filter (\<lambda>e. e = TaskStarted 1) (emitted ex)), loop_stack (sequence ex),
          current_task (sequence ex)))
     (iterations integral_floats reads_five (Suc (Suc (Suc (Suc (Suc (Suc (Suc (Suc (Suc (Suc (Suc 0)))))))))))
        (start (SequenceExecutor loop3 meters 0)))
   = (4, [(0, 1, 3), (0, 1, 3), (0, 1, 3), (0, 0, 3)], 2)"
  by (simp add: exec_defs loop3_def Let_def)

section \<open>Saving and loading\<close>










text \<open>
  \<open>to_dict\<close> and \<open>from_dict\<close> do not carry the recurrence: the dictionary of
  \<open>to_dict\<close> has no key for it, and a sequence made by \<open>from_dict\<close> has no
  \<open>recurrence_type\<close>.
\<close>

lemma add_tasks_keeps_recurrence:
  "add_tasks_from store insts ds s0 = Inr s1 \<Longrightarrow> recurrence_type s1 = recurrence_type s0"
proof (induction ds arbitrary: s0)
  case Nil
  then show ?case by simp
next
  case (Cons d ds)
  then show ?case
    by (auto simp: add_task_def split: sum.splits)
qed

lemma from_dict_has_no_recurrence:
  assumes "from_dict q store insts (to_dict q store s) = Inr s'"
  shows "recurrence_type s' = None"
proof (cases "add_tasks_from store insts (map (task_to_dict store) (tasks s))
                (ExperimentSequence (seq_name s) :: ('a, 'b) sequence)")
  case (Inl e)
  then show ?thesis
    using assms by (simp add: from_dict_def to_dict_def)
next
  case (Inr s1)
  have "recurrence_type s1 = recurrence_type (ExperimentSequence (seq_name s) :: ('a, 'b) sequence)"
    by (rule add_tasks_keeps_recurrence [OF Inr])
  then have "recurrence_type s1 = None"
    by (simp add: ExperimentSequence_def)
  moreover have "recurrence_type s' = recurrence_type s1"
    using assms Inr
    by (auto simp: from_dict_def to_dict_def split: option.splits if_splits)
  ultimately show ?thesis by simp
qed







text \<open>
  The recurrence is written by \<open>save_sequences\<close> and read by
  \<open>load_sequences\<close>: between the dictionary the one hands to \<open>json.dump\<close>
  and the one the other gets from \<open>json.load\<close>, when these are the same, the
  recurrence is kept.
\<close>

lemma save_load_keeps_recurrence:
  assumes "from_dict q store insts (to_dict q store s) = Inr s'"
  shows "load_sequence q store insts (save_sequence q store now s)
         = Inr (s'\<lparr>recurrence_type := recurrence_type s\<rparr>)"
proof -
  have none: "recurrence_type s' = None"
    by (rule from_dict_has_no_recurrence [OF assms])
  have same: "from_dict q store insts (save_sequence q store now s)
        = from_dict q store insts (to_dict q store s)"
    by (cases "recurrence_type s")
       (simp_all add: save_sequence_def from_dict_def to_dict_def split: sum.splits)
  have rec: "sd_recurrence_type (save_sequence q store now s) = recurrence_type s"
    by (cases "recurrence_type s") (simp_all add: save_sequence_def to_dict_def)
  have unchanged: "s'\<lparr>recurrence_type := None\<rparr> = s'"
    using none by (cases s') simp
  show ?thesis
  proof (cases "recurrence_type s")
    case None
    then show ?thesis
      using unchanged by (simp add: load_sequence_def same assms rec)
  next
    case (Some k)
    then show ?thesis
      by (simp add: load_sequence_def same assms rec)
  qed
qed

section \<open>Scheduled sequences\<close>

lemma run_sequence_effect:
  "executors (snd (run_sequence s m)) = (executors m)(seq_name s \<mapsto> \<lparr>is_running = True, th_paused = False, th_stopped = False\<rparr>)
   \<and> started (snd (run_sequence s m)) = started m @ [seq_name s]
   \<and> sequences (snd (run_sequence s m)) = sequences m"
  by (auto simp: run_sequence_def stop_sequence_def Let_def split: option.splits)

lemma check_each_sequences:
  "fst (check_each q now ss m)
   = map (\<lambda>s. if is_due q now s
               then s\<lparr>scheduled_time := Option.bind (scheduled_time s) (reschedule q (recurrence_type s))\<rparr>
               else s) ss"
proof (induction ss arbitrary: m)
  case Nil
  then show ?case by simp
next
  case (Cons s ss)
  then show ?case
    by (auto simp: Let_def is_due_def case_prod_unfold split: option.splits)
qed

lemma check_each_started:
  "started (snd (check_each q now ss m)) = started m @ map seq_name (filter (is_due q now) ss)"
proof (induction ss arbitrary: m)
  case Nil
  then show ?case by simp
next
  case (Cons s ss)
  then show ?case
    by (auto simp: Let_def is_due_def run_sequence_effect case_prod_unfold split: option.splits)
qed

lemma check_each_executors:
  "executors (snd (check_each q now ss m)) nm
   = (if nm \<in> seq_name ` set (filter (is_due q now) ss)
      then Some \<lparr>is_running = True, th_paused = False, th_stopped = False\<rparr>
      else executors m nm)"
proof (induction ss arbitrary: m)
  case Nil
  then show ?case by simp
next
  case (Cons s ss)
  then show ?case
    by (auto simp: Let_def is_due_def run_sequence_effect case_prod_unfold split: option.splits)
qed

lemma count_distinct_filter:
  assumes "distinct (map f xs)" and "x \<in> set xs" and "P x"
  shows "count_list (map f (filter P xs)) (f x) = 1"
  using assms
proof (induction xs)
  case Nil
  then show ?case by simp
next
  case (Cons y ys)
  show ?case
  proof (cases "y = x")
    case True
    have "f x \<notin> set (map f (filter P ys))"
      using Cons.prems(1) True by auto
    then have "count_list (map f (filter P ys)) (f x) = 0"
      by (simp only: count_list_0_iff) simp
    then show ?thesis
      using True Cons.prems(3) by simp
  next
    case False
    then have "x \<in> set ys" using Cons.prems(2) by simp
    moreover have "f y \<noteq> f x"
      using Cons.prems(1) \<open>x \<in> set ys\<close> by auto
    ultimately show ?thesis
      using Cons by simp
  qed
qed


text \<open>
  C6. One call of \<open>check_scheduled_sequences\<close> on a manager whose sequences have
  distinct names, for a Stopped sequence scheduled at a valid time \<open>t\<close> not after the
  current time: \<open>executor.start()\<close> is called exactly once for it and a running
  executor is registered under its name; with recurrence Daily the scheduled time becomes
  \<open>t.addDays(1)\<close>; without recurrence, or with a recurrence other than Daily, Weekly
  and Monthly, the schedule is cleared.
\<close>

theorem due_sequence_runs_once_and_is_rescheduled:
  assumes "distinct (map seq_name (sequences m))"
    and "i < length (sequences m)"
    and "seq_status (sequences m ! i) = Stopped"
    and "scheduled_time (sequences m ! i) = Some t"
    and "dt_truthy q t" and "dt_le q t now"
  shows "count_list (started (check_scheduled_sequences q now m)) (seq_name (sequences m ! i))
           = count_list (started m) (seq_name (sequences m ! i)) + 1
       \<and> executors (check_scheduled_sequences q now m) (seq_name (sequences m ! i))
           = Some \<lparr>is_running = True, th_paused = False, th_stopped = False\<rparr>
       \<and> (recurrence_type (sequences m ! i) = Some ''Daily'' \<longrightarrow>
            scheduled_time (sequences (check_scheduled_sequences q now m) ! i)
              = Some (dt_addDays q t 1))
       \<and> (recurrence_type (sequences m ! i) = None
            \<or> (\<exists>k. recurrence_type (sequences m ! i) = Some k
                    \<and> k \<noteq> ''Daily'' \<and> k \<noteq> ''Weekly'' \<and> k \<noteq> ''Monthly'') \<longrightarrow>
            scheduled_time (sequences (check_scheduled_sequences q now m) ! i) = None)"
proof -
  let ?s = "sequences m ! i"
  have due: "is_due q now ?s"
    using assms(3-6) by (simp add: is_due_def)
  have mem: "?s \<in> set (sequences m)"
    using assms(2) by simp
  have seqs: "sequences (check_scheduled_sequences q now m) = fst (check_each q now (sequences m) m)"
    by (simp add: check_scheduled_sequences_def case_prod_unfold)
  have st: "started (check_scheduled_sequences q now m) = started (snd (check_each q now (sequences m) m))"
    by (simp add: check_scheduled_sequences_def case_prod_unfold)
  have cnt: "count_list (started (check_scheduled_sequences q now m)) (seq_name ?s)
           = count_list (started m) (seq_name ?s) + 1"
    using count_distinct_filter [OF assms(1) mem, of "is_due q now"] due
    by (simp add: st check_each_started)
  have sched: "scheduled_time (sequences (check_scheduled_sequences q now m) ! i)
               = reschedule q (recurrence_type ?s) t"
    using assms(2,4) due by (simp add: seqs check_each_sequences)
  have "seq_name ?s \<in> seq_name ` set (filter (is_due q now) (sequences m))"
    using mem due by simp
  then have ex: "executors (check_scheduled_sequences q now m) (seq_name ?s)
           = Some \<lparr>is_running = True, th_paused = False, th_stopped = False\<rparr>"
    by (simp add: check_scheduled_sequences_def case_prod_unfold check_each_executors)
  show ?thesis
    using cnt sched ex by (auto simp: reschedule_def)
qed

lemma lab_facts:
  "distinct (map seq_name (sequences lab))"
  "length (sequences lab) = 3"
  "seq_name (sequences lab ! 0) = ''nightly''"
  "seq_status (sequences lab ! 0) = Stopped"
  "scheduled_time (sequences lab ! 0) = Some 86400"
  "recurrence_type (sequences lab ! 0) = Some ''Daily''"
  "seq_name (sequences lab ! 1) = ''warm up''"
  "seq_status (sequences lab ! 1) = Stopped"
  "scheduled_time (sequences lab ! 1) = Some 3600"
  "recurrence_type (sequences lab ! 1) = None"
  "started lab = []"
  by (simp_all add: lab_def nightly_def two_tasks_def ExperimentSequence_def)

theorem due_sequence_runs_once_and_is_rescheduled_witness:
  "distinct (map seq_name (sequences lab))
   \<and> seq_status (sequences lab ! 0) = Stopped
   \<and> scheduled_time (sequences lab ! 0) = Some 86400
   \<and> dt_truthy epoch_seconds 86400 \<and> dt_le epoch_seconds 86400 90000
   \<and> recurrence_type (sequences lab ! 0) = Some ''Daily''
   \<and> count_list (started (check_scheduled_sequences epoch_seconds 90000 lab)) ''nightly'' = 1
   \<and> scheduled_time (sequences (check_scheduled_sequences epoch_seconds 90000 lab) ! 0)
       = Some (86400 + 86400)
   \<and> seq_status (sequences lab ! 1) = Stopped
   \<and> scheduled_time (sequences lab ! 1) = Some 3600
   \<and> dt_truthy epoch_seconds 3600 \<and> dt_le epoch_seconds 3600 90000
   \<and> recurrence_type (sequences lab ! 1) = None
   \<and> count_list (started (check_scheduled_sequences epoch_seconds 90000 lab)) ''warm up'' = 1
   \<and> scheduled_time (sequences (check_scheduled_sequences epoch_seconds 90000 lab) ! 1) = None"
proof -
  have i0: "0 < length (sequences lab)" and i1: "1 < length (sequences lab)"
    by (simp_all add: lab_facts)
  have q: "dt_truthy epoch_seconds 86400" "dt_le epoch_seconds 86400 90000"
      "dt_truthy epoch_seconds 3600" "dt_le epoch_seconds 3600 90000"
      "dt_addDays epoch_seconds 86400 1 = 86400 + 86400"
    by (simp_all add: epoch_seconds_def)
  note A = due_sequence_runs_once_and_is_rescheduled
             [OF lab_facts(1) i0 lab_facts(4) lab_facts(5) q(1) q(2)]
  note B = due_sequence_runs_once_and_is_rescheduled
             [OF lab_facts(1) i1 lab_facts(8) lab_facts(9) q(3) q(4)]
  show ?thesis
    using A B q lab_facts by simp
qed

text \<open>
  With repeat 1 the loop end pops the frame at its first visit: the body runs once and
  the run completes with an empty loop stack.
\<close>

lemma loop_repeat1_completes:
  "map_option (\<lambda>ex. (emitted ex, loop_stack (sequence ex), seq_status (sequence ex)))
     (run integral_floats reads_five (Suc (Suc (Suc 0))) (SequenceExecutor loop1 meters 0))
   = Some ([TaskStarted 0, TaskCompleted 0 (LoopStarted 1),
            TaskStarted 1, TaskCompleted 1 (Delayed (VInt 0)),
            TaskStarted 2, TaskCompleted 2 LoopComplete,
            SequenceCompleted], [], Complete)"
  by (simp add: exec_defs loop1_def Let_def)

text \<open>
  \<open>int\<close> does not skip the separator \<open>0x1C\<close>, which \<open>strip\<close> removes; it
  skips a no-break space and a line feed.
\<close>

lemma int_of_str_whitespace:
  "int_of_str [CHR 0x1C, CHR ''5''] = None
   \<and> strip [CHR 0x1C, CHR ''5''] = ''5''
   \<and> int_of_str [CHR 0xA0, CHR ''5'', CHR 0x0A] = Some 5"
  by (simp add: int_of_str_def is_int_space_def strip_def is_space_def unsigned_of_str_def
        digit_of_def)

end
